theory Spec2Isabelle
  imports Complex_Main
begin

section \<open>The equilibrium lesson: potential, force and curvature\<close>

text \<open>
  The script \<^verbatim>\<open>scripts/equilibrium_lesson.py\<close> works on Python floats. The
  embedding reads every position as a real number and every arithmetic operation as
  the exact operation on reals, which is the reading the specification uses when it
  speaks of a real position \<open>x\<close>. The tolerances \<^verbatim>\<open>0.1\<close> and \<^verbatim>\<open>1e-6\<close> are
  the rationals \<open>1/10\<close> and \<open>1/1000000\<close>.
\<close>

definition potential_energy :: "real \<Rightarrow> real" where
  "potential_energy x = x ^ 4 - 4 * x ^ 2 + x"

definition force :: "real \<Rightarrow> real" where
  "force x = - 4 * x ^ 3 + 8 * x - 1"

definition second_derivative :: "real \<Rightarrow> real" where
  "second_derivative x = 12 * x ^ 2 - 8"

text \<open>
  \<^verbatim>\<open>classify_equilibrium\<close> returns the pair of a label and the curvature. The
  three branches are tried in the order of the source.
\<close>

definition classify_equilibrium :: "real \<Rightarrow> string \<times> real" where
  "classify_equilibrium x_eq =
     (let d2U = second_derivative x_eq
      in if d2U > 0 then (''stable'', d2U)
         else if d2U < 0 then (''unstable'', d2U)
         else (''neutral'', d2U))"

section \<open>The finder\<close>

text \<open>
  \<^verbatim>\<open>scipy.optimize.fsolve\<close> is a library routine, not code of the script. The
  finder is therefore parametrised by the solver: given the function and the seed, the
  solver either raises (\<open>Inl\<close>) or returns its candidate (\<open>Inr\<close>), which is the
  value of \<^verbatim>\<open>fsolve(force, x_guess)[0]\<close>.
\<close>

datatype py_exception = PyException string

type_synonym solver = "(real \<Rightarrow> real) \<Rightarrow> real \<Rightarrow> py_exception + real"

text \<open>
  The body of the \<^verbatim>\<open>try\<close> block for one seed, started with the points
  accepted so far. An exception of the solver leaves the block at once.
\<close>

definition try_body :: "solver \<Rightarrow> real list \<Rightarrow> real \<Rightarrow> py_exception + real list" where
  "try_body fsolve equilibrium_points x_guess =
     (case fsolve force x_guess of
        Inl e \<Rightarrow> Inl e
      | Inr x_eq \<Rightarrow>
          (let is_new = list_all (\<lambda>x_existing. \<bar>x_eq - x_existing\<bar> > 1 / 10) equilibrium_points
           in if is_new \<and> \<bar>force x_eq\<bar> < 1 / 1000000
              then Inr (equilibrium_points @ [x_eq])
              else Inr equilibrium_points))"

text \<open>
  One iteration of the \<^verbatim>\<open>for\<close> loop: the bare \<^verbatim>\<open>except: pass\<close> turns
  every exception of the block into "nothing changed".
\<close>

definition loop_body :: "solver \<Rightarrow> real list \<Rightarrow> real \<Rightarrow> real list" where
  "loop_body fsolve equilibrium_points x_guess =
     (case try_body fsolve equilibrium_points x_guess of
        Inl e \<Rightarrow> equilibrium_points
      | Inr points' \<Rightarrow> points')"

fun search_loop :: "solver \<Rightarrow> real list \<Rightarrow> real list \<Rightarrow> real list" where
  "search_loop fsolve equilibrium_points [] = equilibrium_points"
| "search_loop fsolve equilibrium_points (x_guess # rest) =
     search_loop fsolve (loop_body fsolve equilibrium_points x_guess) rest"

definition seeds :: "real list" where
  "seeds = [- 2, 0, 2]"

definition find_equilibrium_points :: "solver \<Rightarrow> real list" where
  "find_equilibrium_points fsolve = sort (search_loop fsolve [] seeds)"

text \<open>
  Whether the solver comes back from a seed with a candidate, rather than raising.
\<close>

definition returns :: "solver \<Rightarrow> real \<Rightarrow> bool" where
  "returns fsolve x_guess = (case fsolve force x_guess of Inl e \<Rightarrow> False | Inr x_eq \<Rightarrow> True)"

section \<open>Sample solvers\<close>

text \<open>
  Concrete stand-ins for the library routine, used to run the finder on explicit
  inputs. \<open>converging_solver\<close> answers each seed with a twelve-digit approximation
  of the root of the force in the seed's region; \<open>failing_solver\<close> raises at the
  seed \<open>0\<close>; \<open>stuck_solver\<close> does not move away from its seed.
\<close>

definition converging_solver :: solver where
  "converging_solver f x_guess =
     (if x_guess = - 2 then Inr (- 1472997601114 / 1000000000000)
      else if x_guess = 0 then Inr (126000192586 / 1000000000000)
      else if x_guess = 2 then Inr (1346997408528 / 1000000000000)
      else Inl (PyException ''no answer''))"

definition failing_solver :: solver where
  "failing_solver f x_guess =
     (if x_guess = 0 then Inl (PyException ''RuntimeError'')
      else converging_solver f x_guess)"

definition stuck_solver :: solver where
  "stuck_solver f x_guess = Inr x_guess"

section \<open>What the figure shows for one equilibrium point\<close>













section \<open>Classification\<close>

lemma classify_equilibrium_cases:
  "classify_equilibrium x =
     (if 12 * x ^ 2 - 8 > 0 then (''stable'', 12 * x ^ 2 - 8)
      else if 12 * x ^ 2 - 8 < 0 then (''unstable'', 12 * x ^ 2 - 8)
      else (''neutral'', 12 * x ^ 2 - 8))"
  by (simp add: classify_equilibrium_def second_derivative_def Let_def)

text \<open>
  Claim C2. For every real position \<open>x\<close>, \<^verbatim>\<open>classify_equilibrium(x)\<close> returns
  the pair of a label and the curvature \<open>12 x\<^sup>2 - 8\<close>; the label is \<open>stable\<close>
  exactly when the curvature is positive, \<open>unstable\<close> exactly when it is negative
  and \<open>neutral\<close> exactly when it is zero, with no tolerance band.
\<close>

theorem classify_equilibrium_label_iff:
  "snd (classify_equilibrium x) = 12 * x ^ 2 - 8
   \<and> (fst (classify_equilibrium x) = ''stable'' \<longleftrightarrow> 12 * x ^ 2 - 8 > 0)
   \<and> (fst (classify_equilibrium x) = ''unstable'' \<longleftrightarrow> 12 * x ^ 2 - 8 < 0)
   \<and> (fst (classify_equilibrium x) = ''neutral'' \<longleftrightarrow> 12 * x ^ 2 - 8 = 0)"
  unfolding classify_equilibrium_cases by auto

theorem classify_equilibrium_label_iff_witness:
  "classify_equilibrium 1 = (''stable'', 4)
   \<and> classify_equilibrium 0 = (''unstable'', - 8)
   \<and> classify_equilibrium (sqrt (2 / 3)) = (''neutral'', 0)"
proof -
  have "12 * (sqrt (2 / 3)) ^ 2 - 8 = (0::real)" by simp
  then show ?thesis
    using classify_equilibrium_label_iff [of 1] classify_equilibrium_label_iff [of 0]
      classify_equilibrium_label_iff [of "sqrt (2 / 3)"]
    by (simp add: prod_eq_iff)
qed

section \<open>The hand-coded derivatives\<close>

lemma potential_energy_deriv:
  "(potential_energy has_real_derivative - force x) (at x)"
  unfolding potential_energy_def [abs_def] force_def
  by (auto intro!: derivative_eq_intros)

lemma force_deriv:
  "((\<lambda>y. - force y) has_real_derivative second_derivative x) (at x)"
  unfolding second_derivative_def force_def
  by (auto intro!: derivative_eq_intros)

text \<open>
  Claim C6. With \<open>U(x) = x\<^sup>4 - 4 x\<^sup>2 + x\<close>, the force
  \<open>- 4 x\<^sup>3 + 8 x - 1\<close> is the negative of the first derivative of \<open>U\<close> at
  every real \<open>x\<close>, and \<open>12 x\<^sup>2 - 8\<close> is the derivative of \<open>- force\<close>, that
  is the second derivative of \<open>U\<close>.
\<close>

theorem force_and_curvature_are_derivatives:
  "(potential_energy has_real_derivative - force x) (at x)
   \<and> force x = - 4 * x ^ 3 + 8 * x - 1
   \<and> potential_energy x = x ^ 4 - 4 * x ^ 2 + x
   \<and> ((\<lambda>y. - force y) has_real_derivative second_derivative x) (at x)
   \<and> second_derivative x = 12 * x ^ 2 - 8"
  using potential_energy_deriv [of x] force_deriv [of x]
  by (simp add: force_def potential_energy_def second_derivative_def)

section \<open>One iteration of the search loop\<close>

lemma loop_body_raise:
  "fsolve force g = Inl e \<Longrightarrow> loop_body fsolve eqs g = eqs"
  by (simp add: loop_body_def try_body_def)

lemma loop_body_return:
  "fsolve force g = Inr x \<Longrightarrow>
   loop_body fsolve eqs g =
     (if \<bar>force x\<bar> < 1 / 1000000 \<and> (\<forall>e \<in> set eqs. \<bar>x - e\<bar> > 1 / 10) then eqs @ [x] else eqs)"
  by (simp add: loop_body_def try_body_def Let_def list_all_iff)

lemma loop_body_length: "length (loop_body fsolve eqs g) \<le> Suc (length eqs)"
  by (cases "fsolve force g") (simp_all add: loop_body_raise loop_body_return)

lemma search_loop_length: "length (search_loop fsolve eqs gs) \<le> length eqs + length gs"
proof (induction gs arbitrary: eqs)
  case Nil
  show ?case by simp
next
  case (Cons g gs)
  have "length (search_loop fsolve (loop_body fsolve eqs g) gs)
          \<le> length (loop_body fsolve eqs g) + length gs"
    by (rule Cons.IH)
  also have "\<dots> \<le> Suc (length eqs) + length gs"
    using loop_body_length [of fsolve eqs g] by simp
  finally show ?case by simp
qed

text \<open>The finder run on the sample solvers.\<close>

lemma run_converging_solver:
  "find_equilibrium_points converging_solver =
     [- 1472997601114 / 1000000000000, 126000192586 / 1000000000000,
      1346997408528 / 1000000000000]"
  by (simp add: find_equilibrium_points_def seeds_def loop_body_def try_body_def
      converging_solver_def force_def power3_eq_cube)

lemma run_failing_solver:
  "find_equilibrium_points failing_solver =
     [- 1472997601114 / 1000000000000, 1346997408528 / 1000000000000]"
  by (simp add: find_equilibrium_points_def seeds_def loop_body_def try_body_def
      failing_solver_def converging_solver_def force_def power3_eq_cube)

lemma run_stuck_solver: "find_equilibrium_points stuck_solver = []"
  by (simp add: find_equilibrium_points_def seeds_def loop_body_def try_body_def
      stuck_solver_def force_def)

text \<open>
  Claim C3. When the solver returns a candidate for a seed, the iteration appends the
  candidate to the accepted points if and only if its absolute force is below
  \<open>1e-6\<close> and it differs from every accepted point by more than \<open>0.1\<close>;
  otherwise the accepted points are unchanged, and the loop goes on with them.
\<close>

theorem candidate_accepted_iff:
  assumes "fsolve force x_guess = Inr x_eq"
  shows "loop_body fsolve accepted x_guess =
           (if \<bar>force x_eq\<bar> < 1 / 1000000 \<and> (\<forall>x_existing \<in> set accepted. \<bar>x_eq - x_existing\<bar> > 1 / 10)
            then accepted @ [x_eq] else accepted)
         \<and> search_loop fsolve accepted (x_guess # rest) =
           search_loop fsolve
             (if \<bar>force x_eq\<bar> < 1 / 1000000 \<and> (\<forall>x_existing \<in> set accepted. \<bar>x_eq - x_existing\<bar> > 1 / 10)
              then accepted @ [x_eq] else accepted) rest"
  using loop_body_return [where fsolve = fsolve and g = x_guess and x = x_eq and eqs = accepted] assms
  by simp

theorem candidate_accepted_iff_witness:
  "loop_body stuck_solver [] 0 = []
   \<and> loop_body converging_solver [] 0 = [126000192586 / 1000000000000]
   \<and> loop_body converging_solver [1 / 8] 0 = [1 / 8]"
proof -
  have stuck: "stuck_solver force 0 = Inr 0"
    by (simp add: stuck_solver_def)
  have conv: "converging_solver force 0 = Inr (126000192586 / 1000000000000)"
    by (simp add: converging_solver_def)
  have small: "\<bar>force (126000192586 / 1000000000000)\<bar> < 1 / 1000000"
    by (simp add: force_def power3_eq_cube)
  have close: "\<not> \<bar>126000192586 / 1000000000000 - 1 / 8\<bar> > (1 / 10 :: real)"
    by simp
  have "loop_body stuck_solver [] 0 = []"
    using candidate_accepted_iff [where fsolve = stuck_solver and x_guess = 0 and x_eq = 0
        and accepted = "[]" and rest = "[]", OF stuck] by (simp add: force_def)
  moreover have "loop_body converging_solver [] 0 = [126000192586 / 1000000000000]"
    using candidate_accepted_iff [where fsolve = converging_solver and x_guess = 0
        and x_eq = "126000192586 / 1000000000000" and accepted = "[]" and rest = "[]", OF conv] small by simp
  moreover have "loop_body converging_solver [1 / 8] 0 = [1 / 8]"
    using candidate_accepted_iff [where fsolve = converging_solver and x_guess = 0
        and x_eq = "126000192586 / 1000000000000" and accepted = "[1 / 8]" and rest = "[]", OF conv] close
    by (simp only: list.set ball_simps if_False simp_thms)
  ultimately show ?thesis by blast
qed

section \<open>Exceptions of the solver\<close>

lemma search_loop_skips_raising:
  "search_loop fsolve eqs gs = search_loop fsolve eqs (filter (returns fsolve) gs)"
proof (induction gs arbitrary: eqs)
  case Nil
  show ?case by simp
next
  case (Cons g gs)
  show ?case
  proof (cases "fsolve force g")
    case (Inl e)
    then show ?thesis using Cons.IH [of eqs] by (simp add: returns_def loop_body_raise)
  next
    case (Inr c)
    then show ?thesis using Cons.IH [of "loop_body fsolve eqs g"] by (simp add: returns_def)
  qed
qed

text \<open>
  Claim C5. An exception raised by the solver for a seed leaves the \<^verbatim>\<open>try\<close>
  block, is swallowed by the handler, adds no point, and the loop goes on with the
  remaining seeds. The finder returns a list for every solver: its result is the result
  of the same run over the seeds at which the solver does not raise.
\<close>

theorem solver_exception_suppressed:
  "(fsolve force x_guess = Inl e \<longrightarrow>
      try_body fsolve accepted x_guess = Inl e
      \<and> loop_body fsolve accepted x_guess = accepted
      \<and> search_loop fsolve accepted (x_guess # rest) = search_loop fsolve accepted rest)
   \<and> find_equilibrium_points fsolve = sort (search_loop fsolve [] (filter (returns fsolve) seeds))"
  using search_loop_skips_raising [of fsolve "[]" seeds]
  by (simp add: loop_body_raise find_equilibrium_points_def try_body_def)

theorem solver_exception_suppressed_witness:
  "failing_solver force 0 = Inl (PyException ''RuntimeError'')
   \<and> loop_body failing_solver [] 0 = []
   \<and> filter (returns failing_solver) seeds = [- 2, 2]
   \<and> find_equilibrium_points failing_solver =
       [- 1472997601114 / 1000000000000, 1346997408528 / 1000000000000]"
  using solver_exception_suppressed [of failing_solver 0 "PyException ''RuntimeError''" "[]" "[]"]
  by (simp add: run_failing_solver failing_solver_def converging_solver_def returns_def seeds_def)

section \<open>The length of the result\<close>

text \<open>
  Claim C9. The result never has more than three positions: there are three seeds, and
  one iteration adds at most one point.
\<close>

theorem find_equilibrium_points_at_most_three:
  "length (find_equilibrium_points fsolve) \<le> 3
   \<and> length seeds = 3
   \<and> length (loop_body fsolve accepted x_guess) \<le> Suc (length accepted)"
  using search_loop_length [of fsolve "[]" seeds] loop_body_length [of fsolve accepted x_guess]
  by (simp add: find_equilibrium_points_def seeds_def)

theorem find_equilibrium_points_at_most_three_witness:
  "length (find_equilibrium_points converging_solver) = 3
   \<and> length (find_equilibrium_points failing_solver) = 2
   \<and> length (find_equilibrium_points stuck_solver) = 0"
  using find_equilibrium_points_at_most_three [of converging_solver "[]" 0]
  by (simp add: run_converging_solver run_failing_solver run_stuck_solver)

section \<open>The invariant of the accepted points\<close>

lemma loop_body_force:
  assumes "\<forall>x \<in> set eqs. \<bar>force x\<bar> < 1 / 1000000"
  shows "\<forall>x \<in> set (loop_body fsolve eqs g). \<bar>force x\<bar> < 1 / 1000000"
  using assms by (cases "fsolve force g") (auto simp: loop_body_raise loop_body_return)

lemma loop_body_apart:
  assumes "distinct eqs" and "\<forall>x \<in> set eqs. \<forall>y \<in> set eqs. x \<noteq> y \<longrightarrow> \<bar>x - y\<bar> > 1 / 10"
  shows "distinct (loop_body fsolve eqs g) \<and>
         (\<forall>x \<in> set (loop_body fsolve eqs g). \<forall>y \<in> set (loop_body fsolve eqs g).
            x \<noteq> y \<longrightarrow> \<bar>x - y\<bar> > 1 / 10)"
proof (cases "fsolve force g")
  case (Inl e)
  with assms show ?thesis by (simp add: loop_body_raise)
next
  case (Inr c)
  show ?thesis
  proof (cases "\<bar>force c\<bar> < 1 / 1000000 \<and> (\<forall>e \<in> set eqs. \<bar>c - e\<bar> > 1 / 10)")
    case False
    have "loop_body fsolve eqs g = eqs"
      using loop_body_return [where fsolve = fsolve and g = g and x = c and eqs = eqs] Inr False
      by (simp only: if_False)
    with assms show ?thesis by simp
  next
    case True
    then have far: "\<forall>e \<in> set eqs. \<bar>c - e\<bar> > 1 / 10" by simp
    then have fresh: "c \<notin> set eqs" by fastforce
    have far': "\<forall>e \<in> set eqs. \<bar>e - c\<bar> > 1 / 10"
      using far by (simp add: abs_minus_commute)
    have body: "loop_body fsolve eqs g = eqs @ [c]"
      using Inr True by (simp add: loop_body_return)
    show ?thesis
      unfolding body using assms fresh far far' by auto
  qed
qed

lemma search_loop_invariant:
  assumes "distinct eqs"
    and "\<forall>x \<in> set eqs. \<forall>y \<in> set eqs. x \<noteq> y \<longrightarrow> \<bar>x - y\<bar> > 1 / 10"
    and "\<forall>x \<in> set eqs. \<bar>force x\<bar> < 1 / 1000000"
  shows "distinct (search_loop fsolve eqs gs) \<and>
         (\<forall>x \<in> set (search_loop fsolve eqs gs). \<forall>y \<in> set (search_loop fsolve eqs gs).
            x \<noteq> y \<longrightarrow> \<bar>x - y\<bar> > 1 / 10) \<and>
         (\<forall>x \<in> set (search_loop fsolve eqs gs). \<bar>force x\<bar> < 1 / 1000000)"
  using assms
proof (induction gs arbitrary: eqs)
  case Nil
  then show ?case by simp
next
  case (Cons g gs)
  have step: "distinct (loop_body fsolve eqs g) \<and>
         (\<forall>x \<in> set (loop_body fsolve eqs g). \<forall>y \<in> set (loop_body fsolve eqs g).
            x \<noteq> y \<longrightarrow> \<bar>x - y\<bar> > 1 / 10)"
    using Cons.prems(1,2) by (rule loop_body_apart)
  have forces: "\<forall>x \<in> set (loop_body fsolve eqs g). \<bar>force x\<bar> < 1 / 1000000"
    using Cons.prems(3) by (rule loop_body_force)
  show ?case
    using Cons.IH [of "loop_body fsolve eqs g"] step forces by simp
qed

lemma find_equilibrium_points_invariant:
  "sorted (find_equilibrium_points fsolve) \<and> distinct (find_equilibrium_points fsolve) \<and>
   (\<forall>x \<in> set (find_equilibrium_points fsolve). \<forall>y \<in> set (find_equilibrium_points fsolve).
      x \<noteq> y \<longrightarrow> \<bar>x - y\<bar> > 1 / 10) \<and>
   (\<forall>x \<in> set (find_equilibrium_points fsolve). \<bar>force x\<bar> < 1 / 1000000)"
  using search_loop_invariant [of "[]" fsolve seeds]
  by (simp add: find_equilibrium_points_def)

text \<open>
  Claim C1. The returned sequence is sorted in ascending order, any two of its entries
  at different indices differ by more than \<open>0.1\<close>, and every entry \<open>x\<close>
  satisfies \<open>\<bar>- 4 x\<^sup>3 + 8 x - 1\<bar> < 1e-6\<close>.
\<close>

theorem find_equilibrium_points_sorted_apart_roots:
  "sorted (find_equilibrium_points fsolve)
   \<and> (\<forall>i < length (find_equilibrium_points fsolve). \<forall>j < length (find_equilibrium_points fsolve).
        i \<noteq> j \<longrightarrow>
        \<bar>find_equilibrium_points fsolve ! i - find_equilibrium_points fsolve ! j\<bar> > 1 / 10)
   \<and> (\<forall>x \<in> set (find_equilibrium_points fsolve). \<bar>- 4 * x ^ 3 + 8 * x - 1\<bar> < 1 / 1000000)"
proof -
  let ?ps = "find_equilibrium_points fsolve"
  note inv = find_equilibrium_points_invariant [of fsolve]
  have "\<bar>?ps ! i - ?ps ! j\<bar> > 1 / 10" if "i < length ?ps" "j < length ?ps" "i \<noteq> j" for i j
  proof -
    have "?ps ! i \<noteq> ?ps ! j"
      using inv that by (simp add: nth_eq_iff_index_eq)
    moreover have "?ps ! i \<in> set ?ps" "?ps ! j \<in> set ?ps"
      using that by simp_all
    ultimately show ?thesis using inv by blast
  qed
  moreover have "\<forall>x \<in> set ?ps. \<bar>- 4 * x ^ 3 + 8 * x - 1\<bar> < 1 / 1000000"
    using inv by (simp add: force_def)
  ultimately show ?thesis using inv by blast
qed

theorem find_equilibrium_points_sorted_apart_roots_witness:
  "find_equilibrium_points converging_solver =
     [- 1472997601114 / 1000000000000, 126000192586 / 1000000000000,
      1346997408528 / 1000000000000]
   \<and> sorted (find_equilibrium_points converging_solver)
   \<and> \<bar>find_equilibrium_points converging_solver ! 0 - find_equilibrium_points converging_solver ! 1\<bar> > 1 / 10
   \<and> \<bar>find_equilibrium_points converging_solver ! 1 - find_equilibrium_points converging_solver ! 2\<bar> > 1 / 10
   \<and> \<bar>- 4 * (126000192586 / 1000000000000) ^ 3 + 8 * (126000192586 / 1000000000000) - 1\<bar>
        < (1 / 1000000 :: real)"
  using find_equilibrium_points_sorted_apart_roots [of converging_solver]
  by (simp add: run_converging_solver)

section \<open>Where the force can be small\<close>

text \<open>
  The force is a cubic with three real roots. It falls steeply left of \<open>-0.9\<close> and
  right of \<open>0.9\<close>, rises steeply on \<open>[-0.7, 0.7]\<close>, and is far from zero in
  between, so a position that passes the root tolerance lies within \<open>2e-6\<close> of one
  of the roots.
\<close>

lemma force_diff:
  "force x - force y = (x - y) * (8 - 4 * (x * x + x * y + y * y))"
  by (simp add: force_def power3_eq_cube algebra_simps)

lemma force_steep_right:
  assumes "9 / 10 \<le> y" and "y \<le> x"
  shows "force x \<le> force y - (43 / 25) * (x - y)"
proof -
  have "9 / 10 \<le> x" using assms by simp
  have xx: "(9 / 10) * (9 / 10) \<le> x * x"
    using \<open>9 / 10 \<le> x\<close> by (intro mult_mono) simp_all
  have xy: "(9 / 10) * (9 / 10) \<le> x * y"
    using \<open>9 / 10 \<le> x\<close> assms(1) by (intro mult_mono) simp_all
  have yy: "(9 / 10) * (9 / 10) \<le> y * y"
    using assms(1) by (intro mult_mono) simp_all
  have slope: "8 - 4 * (x * x + x * y + y * y) \<le> - (43 / 25)"
    using xx xy yy by simp
  have "(x - y) * (8 - 4 * (x * x + x * y + y * y)) \<le> (x - y) * (- (43 / 25))"
    using slope assms(2) by (intro mult_left_mono) simp_all
  then show ?thesis using force_diff [of x y] by linarith
qed

lemma force_steep_left:
  assumes "x \<le> y" and "y \<le> - (9 / 10)"
  shows "force y \<le> force x - (43 / 25) * (y - x)"
proof -
  have "force (- x) + force x = - 2" "force (- y) + force y = - 2"
    by (simp_all add: force_def)
  moreover have "force (- x) \<le> force (- y) - (43 / 25) * (- x - (- y))"
    using assms by (intro force_steep_right) simp_all
  ultimately show ?thesis by simp
qed

lemma force_steep_middle:
  assumes "- (7 / 10) \<le> y" and "y \<le> x" and "x \<le> 7 / 10"
  shows "force y + (53 / 25) * (x - y) \<le> force x"
proof -
  have ax: "\<bar>x\<bar> \<le> 7 / 10" and ay: "\<bar>y\<bar> \<le> 7 / 10" using assms by simp_all
  have xx: "x * x \<le> (7 / 10) * (7 / 10)"
    using mult_mono [OF ax ax] by (simp add: abs_mult_self_eq)
  have yy: "y * y \<le> (7 / 10) * (7 / 10)"
    using mult_mono [OF ay ay] by (simp add: abs_mult_self_eq)
  have "\<bar>x * y\<bar> \<le> (7 / 10) * (7 / 10)"
    unfolding abs_mult using mult_mono [OF ax ay] by simp
  then have xy: "x * y \<le> (7 / 10) * (7 / 10)" by linarith
  have slope: "53 / 25 \<le> 8 - 4 * (x * x + x * y + y * y)"
    using xx xy yy by simp
  have "(x - y) * (53 / 25) \<le> (x - y) * (8 - 4 * (x * x + x * y + y * y))"
    using slope assms(2) by (intro mult_left_mono) simp_all
  then show ?thesis using force_diff [of x y] by linarith
qed

lemma force_gap_right:
  assumes "7 / 10 \<le> x" and "x \<le> 9 / 10"
  shows "1 \<le> force x"
proof -
  have "x * x \<le> (9 / 10) * (9 / 10)"
    using assms by (intro mult_mono) simp_all
  then have inner: "119 / 25 \<le> 8 - 4 * (x * x)" by simp
  have "(7 / 10) * (119 / 25) \<le> x * (8 - 4 * (x * x))"
    using assms(1) inner by (intro mult_mono) simp_all
  moreover have "force x = x * (8 - 4 * (x * x)) - 1"
    by (simp add: force_def power3_eq_cube algebra_simps)
  ultimately show ?thesis by simp
qed

lemma force_gap_left:
  assumes "- (9 / 10) \<le> x" and "x \<le> - (7 / 10)"
  shows "force x \<le> - 1"
proof -
  have "force (- x) + force x = - 2" by (simp add: force_def)
  moreover have "1 \<le> force (- x)" using assms by (intro force_gap_right) simp_all
  ultimately show ?thesis by simp
qed

lemma force_at_roots:
  "\<bar>force (- 1472997601114 / 1000000000000)\<bar> < 1 / 100000000000"
  "\<bar>force (126000192586 / 1000000000000)\<bar> < 1 / 100000000000"
  "\<bar>force (1346997408528 / 1000000000000)\<bar> < 1 / 100000000000"
  by (simp_all add: force_def power3_eq_cube)

lemma drop_too_large:
  fixes fr fx d :: real
  assumes "\<bar>fr\<bar> < 1 / 100000000000" and "\<bar>fx\<bar> < 1 / 1000000"
    and "1 / 1000000 \<le> d" and "fx \<le> fr - (43 / 25) * d \<or> fr \<le> fx - (43 / 25) * d"
  shows False
  using assms by linarith

lemma rise_too_large:
  fixes fr fx d :: real
  assumes "\<bar>fr\<bar> < 1 / 100000000000" and "\<bar>fx\<bar> < 1 / 1000000"
    and "1 / 1000000 \<le> d" and "fr + (53 / 25) * d \<le> fx \<or> fx + (53 / 25) * d \<le> fr"
  shows False
  using assms by linarith

lemma small_force_right:
  assumes "\<bar>force x\<bar> < 1 / 1000000" and "9 / 10 \<le> x"
  shows "1346996 / 1000000 < x \<and> x < 1346999 / 1000000"
proof -
  let ?r = "1346997408528 / 1000000000000 :: real"
  note fr = force_at_roots(3)
  have r: "9 / 10 \<le> ?r" by simp
  have "x < 1346999 / 1000000"
  proof (rule ccontr)
    assume "\<not> x < 1346999 / 1000000"
    then have far: "?r \<le> x" "x - ?r \<ge> 1 / 1000000" by simp_all
    have "force x \<le> force ?r - (43 / 25) * (x - ?r)"
      using r far(1) by (rule force_steep_right)
    then show False using drop_too_large [OF fr assms(1) far(2)] by blast
  qed
  moreover have "1346996 / 1000000 < x"
  proof (rule ccontr)
    assume "\<not> 1346996 / 1000000 < x"
    then have far: "x \<le> ?r" "?r - x \<ge> 1 / 1000000" by simp_all
    have "force ?r \<le> force x - (43 / 25) * (?r - x)"
      using assms(2) far(1) by (rule force_steep_right)
    then show False using drop_too_large [OF fr assms(1) far(2)] by blast
  qed
  ultimately show ?thesis by simp
qed

lemma small_force_left:
  assumes "\<bar>force x\<bar> < 1 / 1000000" and "x \<le> - (9 / 10)"
  shows "- (1472999 / 1000000) < x \<and> x < - (1472996 / 1000000)"
proof -
  let ?r = "- 1472997601114 / 1000000000000 :: real"
  note fr = force_at_roots(1)
  have r: "?r \<le> - (9 / 10)" by simp
  have "x < - (1472996 / 1000000)"
  proof (rule ccontr)
    assume "\<not> x < - (1472996 / 1000000)"
    then have far: "?r \<le> x" "x - ?r \<ge> 1 / 1000000" by simp_all
    have "force x \<le> force ?r - (43 / 25) * (x - ?r)"
      using far(1) assms(2) by (rule force_steep_left)
    then show False using drop_too_large [OF fr assms(1) far(2)] by blast
  qed
  moreover have "- (1472999 / 1000000) < x"
  proof (rule ccontr)
    assume "\<not> - (1472999 / 1000000) < x"
    then have far: "x \<le> ?r" "?r - x \<ge> 1 / 1000000" by simp_all
    have "force ?r \<le> force x - (43 / 25) * (?r - x)"
      using far(1) r by (rule force_steep_left)
    then show False using drop_too_large [OF fr assms(1) far(2)] by blast
  qed
  ultimately show ?thesis by simp
qed

lemma small_force_middle:
  assumes "\<bar>force x\<bar> < 1 / 1000000" and "- (7 / 10) \<le> x" and "x \<le> 7 / 10"
  shows "125999 / 1000000 < x \<and> x < 126002 / 1000000"
proof -
  let ?r = "126000192586 / 1000000000000 :: real"
  note fr = force_at_roots(2)
  have r: "- (7 / 10) \<le> ?r" "?r \<le> 7 / 10" by simp_all
  have "x < 126002 / 1000000"
  proof (rule ccontr)
    assume "\<not> x < 126002 / 1000000"
    then have far: "?r \<le> x" "x - ?r \<ge> 1 / 1000000" by simp_all
    have "force ?r + (53 / 25) * (x - ?r) \<le> force x"
      using r(1) far(1) assms(3) by (rule force_steep_middle)
    then show False using rise_too_large [OF fr assms(1) far(2)] by blast
  qed
  moreover have "125999 / 1000000 < x"
  proof (rule ccontr)
    assume "\<not> 125999 / 1000000 < x"
    then have far: "x \<le> ?r" "?r - x \<ge> 1 / 1000000" by simp_all
    have "force x + (53 / 25) * (?r - x) \<le> force ?r"
      using assms(2) far(1) r(2) by (rule force_steep_middle)
    then show False using rise_too_large [OF fr assms(1) far(2)] by blast
  qed
  ultimately show ?thesis by simp
qed

lemma small_force_located:
  assumes "\<bar>force x\<bar> < 1 / 1000000"
  shows "(- (1472999 / 1000000) < x \<and> x < - (1472996 / 1000000))
         \<or> (125999 / 1000000 < x \<and> x < 126002 / 1000000)
         \<or> (1346996 / 1000000 < x \<and> x < 1346999 / 1000000)"
proof -
  consider "x \<le> - (9 / 10)" | "- (9 / 10) \<le> x \<and> x \<le> - (7 / 10)"
    | "- (7 / 10) \<le> x \<and> x \<le> 7 / 10" | "7 / 10 \<le> x \<and> x \<le> 9 / 10" | "9 / 10 \<le> x"
    by linarith
  then show ?thesis
  proof cases
    case 1
    then show ?thesis using small_force_left [OF assms] by simp
  next
    case 2
    then have "force x \<le> - 1" by (intro force_gap_left) simp_all
    with assms show ?thesis by linarith
  next
    case 3
    then show ?thesis using small_force_middle [OF assms] by simp
  next
    case 4
    then have "1 \<le> force x" by (intro force_gap_right) simp_all
    with assms show ?thesis by linarith
  next
    case 5
    then show ?thesis using small_force_right [OF assms] by simp
  qed
qed

lemma classify_outer:
  assumes "x \<le> - (9 / 10) \<or> 9 / 10 \<le> x"
  shows "classify_equilibrium x = (''stable'', 12 * x ^ 2 - 8)"
proof -
  have "\<bar>x\<bar> \<ge> 9 / 10" using assms by linarith
  then have "(9 / 10) * (9 / 10) \<le> \<bar>x\<bar> * \<bar>x\<bar>" by (intro mult_mono) simp_all
  then have "12 * x ^ 2 - 8 > 0" by (simp add: power2_eq_square)
  then show ?thesis by (simp add: classify_equilibrium_cases)
qed

lemma classify_inner:
  assumes "- (7 / 10) \<le> x" and "x \<le> 7 / 10"
  shows "classify_equilibrium x = (''unstable'', 12 * x ^ 2 - 8)"
proof -
  have ax: "\<bar>x\<bar> \<le> 7 / 10" using assms by linarith
  have "\<bar>x\<bar> * \<bar>x\<bar> \<le> (7 / 10) * (7 / 10)" using ax by (intro mult_mono) simp_all
  then have "12 * x ^ 2 - 8 < 0" by (simp add: power2_eq_square)
  then show ?thesis by (simp add: classify_equilibrium_cases)
qed






section \<open>The three roots\<close>

lemma search_loop_accepts_three:
  assumes "fsolve force (- 2) = Inr r1" and "fsolve force 0 = Inr r2"
    and "fsolve force 2 = Inr r3"
    and "\<bar>force r1\<bar> < 1 / 1000000" and "\<bar>force r2\<bar> < 1 / 1000000"
    and "\<bar>force r3\<bar> < 1 / 1000000"
    and "\<bar>r2 - r1\<bar> > 1 / 10" and "\<bar>r3 - r1\<bar> > 1 / 10" and "\<bar>r3 - r2\<bar> > 1 / 10"
  shows "search_loop fsolve [] seeds = [r1, r2, r3]"
proof -
  have first: "loop_body fsolve [] (- 2) = [r1]"
    using loop_body_return [where fsolve = fsolve and g = "- 2" and x = r1 and eqs = "[]"]
      assms(1,4) by simp
  have second: "loop_body fsolve [r1] 0 = [r1, r2]"
    using loop_body_return [where fsolve = fsolve and g = 0 and x = r2 and eqs = "[r1]"]
      assms(2,5,7) by simp
  have third: "loop_body fsolve [r1, r2] 2 = [r1, r2, r3]"
    using loop_body_return [where fsolve = fsolve and g = 2 and x = r3 and eqs = "[r1, r2]"]
      assms(3,6,8,9) by simp
  show ?thesis
    by (simp add: seeds_def first second third)
qed

lemma seed_regions:
  fixes r1 r2 r3 :: real
  assumes "\<bar>r1 - (- 2)\<bar> \<le> 1" and "\<bar>r2 - 0\<bar> \<le> 1" and "\<bar>r3 - 2\<bar> \<le> 1"
    and "(- (1472999 / 1000000) < r1 \<and> r1 < - (1472996 / 1000000))
         \<or> (125999 / 1000000 < r1 \<and> r1 < 126002 / 1000000)
         \<or> (1346996 / 1000000 < r1 \<and> r1 < 1346999 / 1000000)"
    and "(- (1472999 / 1000000) < r2 \<and> r2 < - (1472996 / 1000000))
         \<or> (125999 / 1000000 < r2 \<and> r2 < 126002 / 1000000)
         \<or> (1346996 / 1000000 < r2 \<and> r2 < 1346999 / 1000000)"
    and "(- (1472999 / 1000000) < r3 \<and> r3 < - (1472996 / 1000000))
         \<or> (125999 / 1000000 < r3 \<and> r3 < 126002 / 1000000)
         \<or> (1346996 / 1000000 < r3 \<and> r3 < 1346999 / 1000000)"
  shows "(- (1472999 / 1000000) < r1 \<and> r1 < - (1472996 / 1000000))
         \<and> (125999 / 1000000 < r2 \<and> r2 < 126002 / 1000000)
         \<and> (1346996 / 1000000 < r3 \<and> r3 < 1346999 / 1000000)"
  using assms by linarith


text \<open>
  Claim C4. For the force \<open>- 4 x\<^sup>3 + 8 x - 1\<close> and the seeds \<open>-2\<close>, \<open>0\<close>,
  \<open>2\<close>: when the root finder converges from each seed, that is, it returns a point
  within distance \<open>1\<close> of the seed whose force is below the root tolerance, the finder
  returns exactly three distinct roots, in ascending order the answers for \<open>-2\<close>,
  \<open>0\<close> and \<open>2\<close>. They lie within \<open>2e-6\<close> of \<open>-1.472998\<close>,
  \<open>0.126000\<close> and \<open>1.346997\<close>, hence within \<open>0.05\<close> of the illustrative
  values \<open>-1.52\<close>, \<open>0.13\<close> and \<open>1.39\<close>, and
  \<^verbatim>\<open>classify_equilibrium\<close> labels the outer two \<open>stable\<close> (positive curvature)
  and the middle one \<open>unstable\<close> (negative curvature).
\<close>

theorem three_roots_when_solver_converges:
  assumes "fsolve force (- 2) = Inr r1" and "fsolve force 0 = Inr r2"
    and "fsolve force 2 = Inr r3"
    and "\<bar>force r1\<bar> < 1 / 1000000" and "\<bar>force r2\<bar> < 1 / 1000000"
    and "\<bar>force r3\<bar> < 1 / 1000000"
    and "\<bar>r1 - (- 2)\<bar> \<le> 1" and "\<bar>r2 - 0\<bar> \<le> 1" and "\<bar>r3 - 2\<bar> \<le> 1"
  shows "find_equilibrium_points fsolve = [r1, r2, r3]
         \<and> length (find_equilibrium_points fsolve) = 3
         \<and> r1 < r2 \<and> r2 < r3
         \<and> \<bar>r1 - (- (152 / 100))\<bar> < 5 / 100
         \<and> \<bar>r2 - 13 / 100\<bar> < 5 / 100
         \<and> \<bar>r3 - 139 / 100\<bar> < 5 / 100
         \<and> - (1472999 / 1000000) < r1 \<and> r1 < - (1472996 / 1000000)
         \<and> 125999 / 1000000 < r2 \<and> r2 < 126002 / 1000000
         \<and> 1346996 / 1000000 < r3 \<and> r3 < 1346999 / 1000000
         \<and> classify_equilibrium r1 = (''stable'', 12 * r1 ^ 2 - 8) \<and> 12 * r1 ^ 2 - 8 > 0
         \<and> classify_equilibrium r2 = (''unstable'', 12 * r2 ^ 2 - 8) \<and> 12 * r2 ^ 2 - 8 < 0
         \<and> classify_equilibrium r3 = (''stable'', 12 * r3 ^ 2 - 8) \<and> 12 * r3 ^ 2 - 8 > 0"
proof -
  note placed = seed_regions [OF assms(7-9) small_force_located [OF assms(4)]
      small_force_located [OF assms(5)] small_force_located [OF assms(6)]]
  have apart: "\<bar>r2 - r1\<bar> > 1 / 10" "\<bar>r3 - r1\<bar> > 1 / 10" "\<bar>r3 - r2\<bar> > 1 / 10"
    using placed by linarith+
  have loop: "search_loop fsolve [] seeds = [r1, r2, r3]"
    using assms(1-6) apart by (rule search_loop_accepts_three)
  have order: "r1 < r2" "r2 < r3" using placed by linarith+
  then have "sort [r1, r2, r3] = [r1, r2, r3]" by simp
  then have result: "find_equilibrium_points fsolve = [r1, r2, r3]"
    by (simp add: find_equilibrium_points_def loop)
  have c1: "classify_equilibrium r1 = (''stable'', 12 * r1 ^ 2 - 8)"
    using placed by (intro classify_outer) simp
  have c2: "classify_equilibrium r2 = (''unstable'', 12 * r2 ^ 2 - 8)"
    using placed by (intro classify_inner) simp_all
  have c3: "classify_equilibrium r3 = (''stable'', 12 * r3 ^ 2 - 8)"
    using placed by (intro classify_outer) simp
  have signs: "12 * r1 ^ 2 - 8 > 0" "12 * r2 ^ 2 - 8 < 0" "12 * r3 ^ 2 - 8 > 0"
    using c1 c2 c3 by (simp_all add: classify_equilibrium_cases split: if_splits)
  have near: "\<bar>r1 - (- (152 / 100))\<bar> < 5 / 100" "\<bar>r2 - 13 / 100\<bar> < 5 / 100"
    "\<bar>r3 - 139 / 100\<bar> < 5 / 100"
    using placed by linarith+
  show ?thesis
    using result order near placed c1 c2 c3 signs by simp
qed

theorem three_roots_when_solver_converges_witness:
  "find_equilibrium_points converging_solver =
     [- 1472997601114 / 1000000000000, 126000192586 / 1000000000000,
      1346997408528 / 1000000000000]
   \<and> length (find_equilibrium_points converging_solver) = 3
   \<and> map (\<lambda>x. fst (classify_equilibrium x)) (find_equilibrium_points converging_solver) =
       [''stable'', ''unstable'', ''stable'']
   \<and> \<bar>- 1472997601114 / 1000000000000 - (- (152 / 100))\<bar> < (5 / 100 :: real)
   \<and> \<bar>1346997408528 / 1000000000000 - 139 / 100\<bar> < (5 / 100 :: real)"
proof -
  let ?r1 = "- 1472997601114 / 1000000000000 :: real"
  let ?r2 = "126000192586 / 1000000000000 :: real"
  let ?r3 = "1346997408528 / 1000000000000 :: real"
  have answers: "converging_solver force (- 2) = Inr ?r1" "converging_solver force 0 = Inr ?r2"
    "converging_solver force 2 = Inr ?r3"
    by (simp_all add: converging_solver_def)
  have small: "\<bar>force ?r1\<bar> < 1 / 1000000" "\<bar>force ?r2\<bar> < 1 / 1000000"
    "\<bar>force ?r3\<bar> < 1 / 1000000"
    by (simp_all add: force_def power3_eq_cube)
  have local: "\<bar>?r1 - (- 2)\<bar> \<le> 1" "\<bar>?r2 - 0\<bar> \<le> 1" "\<bar>?r3 - 2\<bar> \<le> 1"
    by simp_all
  note found = three_roots_when_solver_converges [where fsolve = converging_solver
      and ?r1.0 = ?r1 and ?r2.0 = ?r2 and ?r3.0 = ?r3, OF answers small local]
  have result: "find_equilibrium_points converging_solver = [?r1, ?r2, ?r3]"
    using found by (rule conjunct1)
  have labels: "map (\<lambda>x. fst (classify_equilibrium x)) [?r1, ?r2, ?r3] =
       [''stable'', ''unstable'', ''stable'']"
    using found by (simp only: list.map fst_conv simp_thms)
  have near: "\<bar>?r1 - (- (152 / 100))\<bar> < (5 / 100 :: real)"
    "\<bar>?r3 - 139 / 100\<bar> < (5 / 100 :: real)"
    using found by (simp_all only: simp_thms)
  show ?thesis
    unfolding result using labels near by (simp only: list.size simp_thms)
qed

section \<open>The presentation of a point that is not stable\<close>





end
